theory Spec2Isabelle
  imports Main
begin

section \<open>JavaScript values handled by the adapters\<close>

text \<open>
  The adapters read tool arguments and streamed records as untyped JavaScript values
  (\<^verbatim>\<open>any\<close>): whatever \<^verbatim>\<open>JSON.parse\<close> returns, plus \<^verbatim>\<open>undefined\<close> for a property that is
  not there. Numbers are IEEE doubles in the runtime; the model keeps them abstract
  (the type parameter \<open>'n\<close>). An object is the list of its own properties, read with
  \<open>map_of\<close>.
\<close>

datatype 'n jsval =
    JUndefined
  | JNull
  | JBool bool
  | JNum 'n
  | JStr string
  | JArr "'n jsval list"
  | JObj "(string \<times> 'n jsval) list"

text \<open>
  What the source takes from the JavaScript runtime without defining it:
  \<^verbatim>\<open>JSON.parse\<close> (\<open>None\<close> when it throws a SyntaxError), the truthiness of a number
  (false for \<^verbatim>\<open>0\<close>, \<^verbatim>\<open>-0\<close> and \<^verbatim>\<open>NaN\<close>), and the operator \<^verbatim>\<open>+\<close> on operands that are not
  both strings (it coerces, and is \<open>None\<close> when the coercion throws a TypeError).
\<close>

record 'n runtime =
  JSON_parse :: "string \<Rightarrow> 'n jsval option"
  number_truthy :: "'n \<Rightarrow> bool"
  plus_coerce :: "'n jsval \<Rightarrow> 'n jsval \<Rightarrow> 'n jsval option"

text \<open>\<^verbatim>\<open>typeof v\<close>.\<close>

fun typeof :: "'n jsval \<Rightarrow> string" where
  "typeof JUndefined = ''undefined''"
| "typeof JNull = ''object''"
| "typeof (JBool b) = ''boolean''"
| "typeof (JNum n) = ''number''"
| "typeof (JStr s) = ''string''"
| "typeof (JArr xs) = ''object''"
| "typeof (JObj kvs) = ''object''"

text \<open>
  The property read \<^verbatim>\<open>v.k\<close> for the property names the source uses (\<^verbatim>\<open>error\<close>, \<^verbatim>\<open>answer\<close>,
  \<^verbatim>\<open>query\<close>, \<^verbatim>\<open>imageFilePath\<close>, \<^verbatim>\<open>inputs\<close>, \<^verbatim>\<open>id\<close>), none of which a built-in prototype
  defines: \<open>None\<close> is the TypeError that reading a property of \<^verbatim>\<open>null\<close> or \<^verbatim>\<open>undefined\<close>
  throws; a value without the property gives \<^verbatim>\<open>undefined\<close>.
\<close>

fun get :: "'n jsval \<Rightarrow> string \<Rightarrow> 'n jsval option" where
  "get JUndefined k = None"
| "get JNull k = None"
| "get (JObj kvs) k = (case map_of kvs k of None \<Rightarrow> Some JUndefined | Some v \<Rightarrow> Some v)"
| "get v k = Some JUndefined"

text \<open>Truthiness, as \<^verbatim>\<open>if (v)\<close> and \<^verbatim>\<open>v || w\<close> test it.\<close>

fun truthy :: "'n runtime \<Rightarrow> 'n jsval \<Rightarrow> bool" where
  "truthy R JUndefined = False"
| "truthy R JNull = False"
| "truthy R (JBool b) = b"
| "truthy R (JNum n) = number_truthy R n"
| "truthy R (JStr s) = (s \<noteq> [])"
| "truthy R (JArr xs) = True"
| "truthy R (JObj kvs) = True"

text \<open>\<^verbatim>\<open>v || w\<close>.\<close>

definition or_else :: "'n runtime \<Rightarrow> 'n jsval \<Rightarrow> 'n jsval \<Rightarrow> 'n jsval" where
  "or_else R v w = (if truthy R v then v else w)"

text \<open>\<^verbatim>\<open>v + w\<close>: concatenation on two strings, the runtime's coercing addition otherwise.\<close>

fun js_plus :: "'n runtime \<Rightarrow> 'n jsval \<Rightarrow> 'n jsval \<Rightarrow> 'n jsval option" where
  "js_plus R (JStr s) (JStr t) = Some (JStr (s @ t))"
| "js_plus R v w = plus_coerce R v w"

section \<open>String operations of the stream loop\<close>

text \<open>
  A chunk is modelled by its text, \<^verbatim>\<open>chunk.toString()\<close>. \<^verbatim>\<open>text.split("\n")\<close> cuts at
  every line feed and keeps the empty pieces: the text after the last line feed is the
  last line, and a text without a line feed is one line.
\<close>

definition newline :: char where
  "newline = CHR 0x0A"

fun split_lines :: "string \<Rightarrow> string list" where
  "split_lines [] = [[]]"
| "split_lines (c # cs) =
     (if c = newline then [] # split_lines cs
      else (case split_lines cs of
              [] \<Rightarrow> [[c]]
            | l # ls \<Rightarrow> (c # l) # ls))"

text \<open>\<^verbatim>\<open>line.startsWith("data: ")\<close> and \<^verbatim>\<open>line.slice(6)\<close>.\<close>

definition startsWith_data :: "string \<Rightarrow> bool" where
  "startsWith_data line = (take 6 line = ''data: '')"

definition slice6 :: "string \<Rightarrow> string" where
  "slice6 line = drop 6 line"

section \<open>The stream aggregator of the two adapters\<close>

text \<open>
  The loop of the tool-call handler is the same text in the pipe adapter and in the push
  adapter (\<^verbatim>\<open>let fullResponse = ""; let isError = false; for await (const chunk of
  response.data) ...\<close>). Its two variables are the state.
\<close>

record 'n aggregation =
  fullResponse :: "'n jsval"
  isError :: bool

text \<open>
  One iteration of the inner loop either goes on to the next line of the chunk or leaves
  the inner loop (\<^verbatim>\<open>break\<close>).
\<close>

datatype 'n line_step = Continue "'n aggregation" | Break "'n aggregation"

text \<open>
  The body of \<^verbatim>\<open>for (const line of lines)\<close>. Everything inside \<^verbatim>\<open>try\<close> that throws
  (a SyntaxError of \<^verbatim>\<open>JSON.parse\<close>, a TypeError of the property read or of \<^verbatim>\<open>+=\<close>) is
  caught and logged, the state is left as it was, and the loop goes on.
\<close>

definition process_line :: "'n runtime \<Rightarrow> 'n aggregation \<Rightarrow> string \<Rightarrow> 'n line_step" where
  "process_line R st line =
     (if startsWith_data line then
        (case JSON_parse R (slice6 line) of
           None \<Rightarrow> Continue st
         | Some jsonData \<Rightarrow>
             (case get jsonData ''error'' of
                None \<Rightarrow> Continue st
              | Some e \<Rightarrow>
                  if truthy R e then Break (st\<lparr>isError := True, fullResponse := e\<rparr>)
                  else
                    (case get jsonData ''answer'' of
                       None \<Rightarrow> Continue st
                     | Some a \<Rightarrow>
                         (case js_plus R (fullResponse st) (or_else R a (JStr '''')) of
                            None \<Rightarrow> Continue st
                          | Some t \<Rightarrow> Continue (st\<lparr>fullResponse := t\<rparr>)))))
      else Continue st)"

text \<open>The inner loop over the lines of one chunk.\<close>

fun process_lines :: "'n runtime \<Rightarrow> 'n aggregation \<Rightarrow> string list \<Rightarrow> 'n aggregation" where
  "process_lines R st [] = st"
| "process_lines R st (line # lines) =
     (case process_line R st line of
        Break st' \<Rightarrow> st'
      | Continue st' \<Rightarrow> process_lines R st' lines)"

text \<open>The outer loop over the chunks of a stream that delivers \<open>chunks\<close> and ends.\<close>

fun process_chunks :: "'n runtime \<Rightarrow> 'n aggregation \<Rightarrow> string list \<Rightarrow> 'n aggregation" where
  "process_chunks R st [] = st"
| "process_chunks R st (chunk # chunks) =
     process_chunks R (process_lines R st (split_lines chunk)) chunks"

definition aggregate :: "'n runtime \<Rightarrow> string list \<Rightarrow> 'n aggregation" where
  "aggregate R chunks =
     process_chunks R \<lparr>fullResponse = JStr '''', isError = False\<rparr> chunks"

section \<open>The tool-call handler of the two adapters\<close>

text \<open>
  \<^verbatim>\<open>setupToolHandlers\<close> is the same text in the pipe adapter (\<^verbatim>\<open>DifyServer\<close>) and in the push
  adapter (\<^verbatim>\<open>DifySSEServer\<close>), so one definition stands for both. What the handler does to
  the outside is the list of HTTP requests it sends, in order.
\<close>

record 'n file_input =
  file_type :: string
  transfer_method :: string
  upload_file_id :: "'n jsval"

record 'n chat_request =
  query :: "'n jsval"
  inputs :: "'n jsval"
  files :: "'n file_input list"
  user :: string
  response_mode :: string

datatype 'n net_call =
    FilesUpload string string
  | ChatMessages "'n chat_request"

text \<open>
  The replies of the remote API. An axios error carries
  \<^verbatim>\<open>error.response?.data?.message\<close> (\<open>None\<close> when there is none; a string when there is
  one) and \<^verbatim>\<open>error.message\<close>. A stream reply delivers its chunks and ends.
\<close>

datatype 'n upload_reply =
    UploadData "'n jsval"
  | UploadAxiosError "string option" string
  | UploadOtherError

datatype chat_reply =
    ChatStream "string list"
  | ChatAxiosError "string option" string
  | ChatOtherError

record 'n world =
  existsSync :: "string \<Rightarrow> bool"
  files_upload :: "string \<Rightarrow> string \<Rightarrow> 'n upload_reply"
  chat_messages :: "'n chat_request \<Rightarrow> chat_reply"

record 'n request =
  tool_name :: string
  arguments :: "'n jsval"

datatype error_code = MethodNotFound | InvalidParams | InternalError

datatype thrown = McpError error_code string | OtherError

record 'n tool_response =
  content_text :: "'n jsval"
  response_isError :: bool

datatype 'n handler_result = Threw thrown | Returned "'n tool_response"

definition tool :: string where
  "tool = ''antd-component-codegen-mcp-tool''"

text \<open>\<^verbatim>\<open>error.response?.data?.message || error.message\<close>.\<close>

definition axios_error_text :: "string option \<Rightarrow> string \<Rightarrow> string" where
  "axios_error_text remote_message message =
     (case remote_message of
        None \<Rightarrow> message
      | Some m \<Rightarrow> if m \<noteq> [] then m else message)"

definition isValidChatRequest :: "'n world \<Rightarrow> 'n jsval \<Rightarrow> bool" where
  "isValidChatRequest W args =
     (typeof args = ''object'' \<and>
      args \<noteq> JNull \<and>
      (case get args ''query'' of
         None \<Rightarrow> False
       | Some q \<Rightarrow> typeof q = ''string'') \<and>
      (case get args ''imageFilePath'' of
         None \<Rightarrow> False
       | Some p \<Rightarrow>
           p = JUndefined \<or>
           (case p of JStr path \<Rightarrow> existsSync W path | _ \<Rightarrow> False)))"

text \<open>
  The adapters' \<^verbatim>\<open>uploadFile\<close>: one request, and an axios error rethrown as an McpError.
\<close>

definition uploadFile ::
  "'n world \<Rightarrow> string \<Rightarrow> string \<Rightarrow> 'n net_call list \<times> (thrown + 'n jsval)" where
  "uploadFile W filePath usr =
     ([FilesUpload filePath usr],
      (case files_upload W filePath usr of
         UploadData d \<Rightarrow> Inr d
       | UploadAxiosError m msg \<Rightarrow>
           Inl (McpError InternalError (''File upload failed: '' @ axios_error_text m msg))
       | UploadOtherError \<Rightarrow> Inl OtherError))"

text \<open>
  The request to \<^verbatim>\<open>/chat-messages\<close> and what the handler returns from its reply: the
  aggregated stream, or the text of an axios error with \<^verbatim>\<open>isError: true\<close>; any other
  error is thrown again.
\<close>

definition post_chat ::
  "'n runtime \<Rightarrow> 'n world \<Rightarrow> 'n jsval \<Rightarrow> 'n file_input list \<Rightarrow>
     'n net_call list \<times> 'n handler_result" where
  "post_chat R W requestArgs fs =
     (case (get requestArgs ''query'', get requestArgs ''inputs'') of
        (Some q, Some i) \<Rightarrow>
          (let body = \<lparr>query = q, inputs = or_else R i (JObj []), files = fs,
                       user = ''mcp-user'', response_mode = ''streaming''\<rparr>
           in ([ChatMessages body],
               (case chat_messages W body of
                  ChatStream chunks \<Rightarrow>
                    (let r = aggregate R chunks
                     in Returned \<lparr>content_text = fullResponse r, response_isError = isError r\<rparr>)
                | ChatAxiosError m msg \<Rightarrow>
                    Returned \<lparr>content_text = JStr (axios_error_text m msg),
                              response_isError = True\<rparr>
                | ChatOtherError \<Rightarrow> Threw OtherError)))
      | _ \<Rightarrow> ([], Threw OtherError))"

text \<open>
  The \<^verbatim>\<open>try\<close> block of the handler, entered with arguments that passed validation.
  A path that is truthy but not a string cannot pass validation; \<^verbatim>\<open>fs.createReadStream\<close>
  would throw on it.
\<close>

definition send_chat ::
  "'n runtime \<Rightarrow> 'n world \<Rightarrow> 'n jsval \<Rightarrow> 'n net_call list \<times> 'n handler_result" where
  "send_chat R W requestArgs =
     (case get requestArgs ''imageFilePath'' of
        None \<Rightarrow> ([], Threw OtherError)
      | Some p \<Rightarrow>
          if truthy R p then
            (case p of
               JStr path \<Rightarrow>
                 (case uploadFile W path ''mcp-user'' of
                    (calls, Inl err) \<Rightarrow> (calls, Threw err)
                  | (calls, Inr uploadResponse) \<Rightarrow>
                      (case get uploadResponse ''id'' of
                         None \<Rightarrow> (calls, Threw OtherError)
                       | Some i \<Rightarrow>
                           (case post_chat R W requestArgs
                                   [\<lparr>file_type = ''image'', transfer_method = ''local_file'',
                                     upload_file_id = i\<rparr>] of
                              (calls', res) \<Rightarrow> (calls @ calls', res))))
             | _ \<Rightarrow> ([], Threw OtherError))
          else post_chat R W requestArgs [])"

definition callTool ::
  "'n runtime \<Rightarrow> 'n world \<Rightarrow> 'n request \<Rightarrow> 'n net_call list \<times> 'n handler_result" where
  "callTool R W req =
     (if tool_name req \<noteq> tool then
        ([], Threw (McpError MethodNotFound (''Unknown tool: '' @ tool_name req)))
      else if \<not> isValidChatRequest W (arguments req) then
        ([], Threw (McpError InvalidParams ''Invalid chat request arguments''))
      else send_chat R W (arguments req))"

text \<open>The handler each adapter registers for a tool call.\<close>

definition pipe_callTool ::
  "'n runtime \<Rightarrow> 'n world \<Rightarrow> 'n request \<Rightarrow> 'n net_call list \<times> 'n handler_result" where
  "pipe_callTool = callTool"

definition push_callTool ::
  "'n runtime \<Rightarrow> 'n world \<Rightarrow> 'n request \<Rightarrow> 'n net_call list \<times> 'n handler_result" where
  "push_callTool = callTool"

text \<open>The user identifier an HTTP request carries.\<close>

fun call_user :: "'n net_call \<Rightarrow> string" where
  "call_user (FilesUpload filePath usr) = usr"
| "call_user (ChatMessages body) = user body"

section \<open>The command-line tool\<close>

text \<open>
  What \<^verbatim>\<open>dify-command-tool\<close> prints: the text written to standard output, and one entry
  per \<^verbatim>\<open>console.error\<close> call.
\<close>

datatype 'n log_entry =
    LogUsage
  | LogStreamError "'n jsval"
  | LogParseFailure
  | LogAxiosError string
  | LogUnexpected
  | LogRejection string

record 'n cli_io =
  stdout :: string
  stderr :: "'n log_entry list"

datatype 'n cli_step = CliContinue "'n cli_io" | CliReturn "'n cli_io"

text \<open>
  The body of the tool's inner loop. An error record ends \<^verbatim>\<open>sendChatMessage\<close>
  (\<^verbatim>\<open>return\<close>), and with it both loops. \<^verbatim>\<open>process.stdout.write\<close> takes a string; on any
  other truthy answer it throws a TypeError, which the \<^verbatim>\<open>catch\<close> of the loop logs.
\<close>

definition cli_line :: "'n runtime \<Rightarrow> 'n cli_io \<Rightarrow> string \<Rightarrow> 'n cli_step" where
  "cli_line R io line =
     (if startsWith_data line then
        (case JSON_parse R (slice6 line) of
           None \<Rightarrow> CliContinue (io\<lparr>stderr := stderr io @ [LogParseFailure]\<rparr>)
         | Some jsonData \<Rightarrow>
             (case get jsonData ''error'' of
                None \<Rightarrow> CliContinue (io\<lparr>stderr := stderr io @ [LogParseFailure]\<rparr>)
              | Some e \<Rightarrow>
                  if truthy R e then CliReturn (io\<lparr>stderr := stderr io @ [LogStreamError e]\<rparr>)
                  else
                    (case get jsonData ''answer'' of
                       None \<Rightarrow> CliContinue (io\<lparr>stderr := stderr io @ [LogParseFailure]\<rparr>)
                     | Some a \<Rightarrow>
                         if truthy R a then
                           (case a of
                              JStr s \<Rightarrow> CliContinue (io\<lparr>stdout := stdout io @ s\<rparr>)
                            | _ \<Rightarrow> CliContinue (io\<lparr>stderr := stderr io @ [LogParseFailure]\<rparr>))
                         else CliContinue io)))
      else CliContinue io)"

fun cli_lines :: "'n runtime \<Rightarrow> 'n cli_io \<Rightarrow> string list \<Rightarrow> 'n cli_step" where
  "cli_lines R io [] = CliContinue io"
| "cli_lines R io (line # lines) =
     (case cli_line R io line of
        CliReturn io' \<Rightarrow> CliReturn io'
      | CliContinue io' \<Rightarrow> cli_lines R io' lines)"

fun cli_chunks :: "'n runtime \<Rightarrow> 'n cli_io \<Rightarrow> string list \<Rightarrow> 'n cli_io" where
  "cli_chunks R io [] = io"
| "cli_chunks R io (chunk # chunks) =
     (case cli_lines R io (split_lines chunk) of
        CliReturn io' \<Rightarrow> io'
      | CliContinue io' \<Rightarrow> cli_chunks R io' chunks)"

text \<open>
  \<^verbatim>\<open>!v\<close> on a value that is a string or \<^verbatim>\<open>undefined\<close>: an environment variable, an
  element of \<^verbatim>\<open>process.argv\<close>.
\<close>

definition missing :: "string option \<Rightarrow> bool" where
  "missing v = (case v of None \<Rightarrow> True | Some s \<Rightarrow> s = [])"

definition key_required :: string where
  "key_required = ''DIFY_API_KEY environment variable is required''"

text \<open>
  How a call of the asynchronous \<^verbatim>\<open>sendChatMessage\<close> ends: its promise is fulfilled, or
  rejected with an Error.
\<close>

datatype settled = Fulfilled | Rejected string

record 'n cli_run =
  cli_calls :: "'n net_call list"
  cli_out :: "'n cli_io"

text \<open>
  The \<^verbatim>\<open>try\<close> block of \<^verbatim>\<open>sendChatMessage\<close> with its \<^verbatim>\<open>catch\<close>, which logs every error.
  The tool's own \<^verbatim>\<open>uploadFile\<close> does not wrap the error of the request.
\<close>

definition cli_post_chat ::
  "'n runtime \<Rightarrow> 'n world \<Rightarrow> string \<Rightarrow> 'n file_input list \<Rightarrow> 'n cli_run" where
  "cli_post_chat R W q fs =
     (let body = \<lparr>query = JStr q, inputs = JObj [], files = fs,
                  user = ''cli-user'', response_mode = ''streaming''\<rparr>
      in \<lparr>cli_calls = [ChatMessages body],
          cli_out =
            (case chat_messages W body of
               ChatStream chunks \<Rightarrow> cli_chunks R \<lparr>stdout = [], stderr = []\<rparr> chunks
             | ChatAxiosError m msg \<Rightarrow>
                 \<lparr>stdout = [], stderr = [LogAxiosError (axios_error_text m msg)]\<rparr>
             | ChatOtherError \<Rightarrow> \<lparr>stdout = [], stderr = [LogUnexpected]\<rparr>)\<rparr>)"

definition cli_upload ::
  "'n runtime \<Rightarrow> 'n world \<Rightarrow> string \<Rightarrow> string \<Rightarrow> 'n cli_run" where
  "cli_upload R W q filePath =
     (case files_upload W filePath ''cli-user'' of
        UploadData d \<Rightarrow>
          (case get d ''id'' of
             None \<Rightarrow>
               \<lparr>cli_calls = [FilesUpload filePath ''cli-user''],
                cli_out = \<lparr>stdout = [], stderr = [LogUnexpected]\<rparr>\<rparr>
           | Some i \<Rightarrow>
               (let r = cli_post_chat R W q
                          [\<lparr>file_type = ''image'', transfer_method = ''local_file'',
                            upload_file_id = i\<rparr>]
                in r\<lparr>cli_calls := FilesUpload filePath ''cli-user'' # cli_calls r\<rparr>))
      | UploadAxiosError m msg \<Rightarrow>
          \<lparr>cli_calls = [FilesUpload filePath ''cli-user''],
           cli_out = \<lparr>stdout = [], stderr = [LogAxiosError (axios_error_text m msg)]\<rparr>\<rparr>
      | UploadOtherError \<Rightarrow>
          \<lparr>cli_calls = [FilesUpload filePath ''cli-user''],
           cli_out = \<lparr>stdout = [], stderr = [LogUnexpected]\<rparr>\<rparr>)"

definition cli_send :: "'n runtime \<Rightarrow> 'n world \<Rightarrow> string \<Rightarrow> string option \<Rightarrow> 'n cli_run" where
  "cli_send R W q imageFilePath =
     (case imageFilePath of
        None \<Rightarrow> cli_post_chat R W q []
      | Some filePath \<Rightarrow>
          if filePath \<noteq> [] \<and> existsSync W filePath then cli_upload R W q filePath
          else cli_post_chat R W q [])"

definition sendChatMessage ::
  "'n runtime \<Rightarrow> 'n world \<Rightarrow> string option \<Rightarrow> string \<Rightarrow> string option \<Rightarrow>
     'n cli_run \<times> settled" where
  "sendChatMessage R W api_key q imageFilePath =
     (if missing api_key then
        (\<lparr>cli_calls = [], cli_out = \<lparr>stdout = [], stderr = []\<rparr>\<rparr>, Rejected key_required)
      else (cli_send R W q imageFilePath, Fulfilled))"

section \<open>Starting the three programs\<close>

text \<open>
  How a run of a program ends: an exception nothing catches, a call of
  \<^verbatim>\<open>process.exit\<close>, a server that has been built and waits for requests, or a script that
  has run to its end.
\<close>

datatype process_end =
    Uncaught string
  | Exit nat
  | Serving
  | Finished

text \<open>
  Both adapter modules begin with \<^verbatim>\<open>if (!API_KEY) throw new Error(...)\<close>, before the server
  object is made. Once \<open>Serving\<close>, an adapter answers tool calls with \<open>callTool\<close>.
\<close>

definition adapter_main :: "string option \<Rightarrow> process_end" where
  "adapter_main api_key = (if missing api_key then Uncaught key_required else Serving)"

definition pipe_main :: "string option \<Rightarrow> process_end" where
  "pipe_main = adapter_main"

definition push_main :: "string option \<Rightarrow> process_end" where
  "push_main = adapter_main"

text \<open>
  The tool's top level: \<^verbatim>\<open>query = process.argv[2]\<close>, \<^verbatim>\<open>imageFilePath = process.argv[3]\<close>,
  the usage exit, and \<^verbatim>\<open>sendChatMessage(query, imageFilePath).catch(console.error)\<close>.
  \<open>args\<close> are the command-line arguments after the script's name.
\<close>

definition argv :: "string list \<Rightarrow> nat \<Rightarrow> string option" where
  "argv args i = (if i < length args then Some (args ! i) else None)"

definition cli_main ::
  "'n runtime \<Rightarrow> 'n world \<Rightarrow> string option \<Rightarrow> string list \<Rightarrow> 'n cli_run \<times> process_end" where
  "cli_main R W api_key args =
     (case argv args 0 of
        None \<Rightarrow> (\<lparr>cli_calls = [], cli_out = \<lparr>stdout = [], stderr = [LogUsage]\<rparr>\<rparr>, Exit 1)
      | Some q \<Rightarrow>
          if q = [] then
            (\<lparr>cli_calls = [], cli_out = \<lparr>stdout = [], stderr = [LogUsage]\<rparr>\<rparr>, Exit 1)
          else
            (case sendChatMessage R W api_key q (argv args 1) of
               (r, Fulfilled) \<Rightarrow> (r, Finished)
             | (r, Rejected msg) \<Rightarrow>
                 (r\<lparr>cli_out := (cli_out r)\<lparr>stderr := stderr (cli_out r) @ [LogRejection msg]\<rparr>\<rparr>,
                  Finished)))"

section \<open>The push adapter's channel\<close>

text \<open>
  \<open>currentTransport\<close> is the field of \<^verbatim>\<open>DifySSEServer\<close>; a transport is named by the
  connection it was made for. \<open>live\<close> is not a variable of the program: it records which
  \<^verbatim>\<open>GET /sse\<close> connections are open, each with its \<^verbatim>\<open>close\<close> handler registered.
\<close>

record push_state =
  currentTransport :: "nat option"
  live :: "nat set"

definition push_init :: push_state where
  "push_init = \<lparr>currentTransport = None, live = {}\<rparr>"

text \<open>\<^verbatim>\<open>GET /sse\<close> on connection \<open>c\<close>.\<close>

definition get_sse :: "nat \<Rightarrow> push_state \<Rightarrow> push_state" where
  "get_sse c s = s\<lparr>currentTransport := Some c, live := insert c (live s)\<rparr>"

text \<open>
  Connection \<open>c\<close> closes: the handler that \<^verbatim>\<open>GET /sse\<close> registered for it runs. A
  connection that is not open has no handler.
\<close>

definition on_close :: "nat \<Rightarrow> push_state \<Rightarrow> push_state" where
  "on_close c s =
     (if c \<in> live s then s\<lparr>currentTransport := None, live := live s - {c}\<rparr> else s)"

record http_response =
  status :: nat
  body :: "(string \<times> string) list"

record post_result =
  response :: http_response
  forwarded_to :: "nat option"

text \<open>
  \<^verbatim>\<open>POST /messages\<close>. \<open>handlePostMessage\<close> is the library's: given the transport and the
  message it answers the request itself (\<open>Inr\<close>) or throws (\<open>Inl\<close>, with the error's text).
\<close>

definition post_messages ::
  "(nat \<Rightarrow> 'm \<Rightarrow> string + http_response) \<Rightarrow> push_state \<Rightarrow> 'm \<Rightarrow> post_result" where
  "post_messages handlePostMessage s msg =
     (case currentTransport s of
        None \<Rightarrow>
          \<lparr>response = \<lparr>status = 400, body = [(''error'', ''No active SSE connection'')]\<rparr>,
           forwarded_to = None\<rparr>
      | Some t \<Rightarrow>
          (case handlePostMessage t msg of
             Inr r \<Rightarrow> \<lparr>response = r, forwarded_to = Some t\<rparr>
           | Inl details \<Rightarrow>
               \<lparr>response = \<lparr>status = 500,
                             body = [(''error'', ''Internal server error''),
                                     (''details'', details)]\<rparr>,
                forwarded_to = Some t\<rparr>))"

datatype 'm event = OpenSse nat | CloseConn nat | PostMessage 'm

fun push_step :: "push_state \<Rightarrow> 'm event \<Rightarrow> push_state" where
  "push_step s (OpenSse c) = get_sse c s"
| "push_step s (CloseConn c) = on_close c s"
| "push_step s (PostMessage m) = s"

definition push_run :: "push_state \<Rightarrow> 'm event list \<Rightarrow> push_state" where
  "push_run s evs = foldl push_step s evs"

section \<open>A runtime for concrete streams\<close>

text \<open>
  The theorems below hold for every runtime. To run the handlers on concrete texts, this
  section gives one: the JSON grammar (white space, the three literals, strings with
  their escapes, numbers, arrays, objects) and the coercions of \<^verbatim>\<open>+\<close>, with the integers
  up to \<open>2\<^sup>5\<^sup>3\<close> in magnitude as numbers, where doubles are exact. It covers texts whose
  numbers are integer literals in that range and whose escapes \<^verbatim>\<open>\uXXXX\<close> stay below 128;
  any other text it refuses like a malformed one, where \<^verbatim>\<open>JSON.parse\<close> accepts a number with
  a fraction or an exponent, a larger integer and a higher escape. Its sums are exact
  integers, where JavaScript rounds a sum beyond \<open>2\<^sup>5\<^sup>3\<close> to a double. The concrete runs
  below hold strings and small integers only.
\<close>

definition is_ws :: "char \<Rightarrow> bool" where
  "is_ws c = (c = CHR '' '' \<or> c = CHR 0x09 \<or> c = CHR 0x0A \<or> c = CHR 0x0D)"

definition skip_ws :: "string \<Rightarrow> string" where
  "skip_ws cs = dropWhile is_ws cs"

definition is_digit :: "char \<Rightarrow> bool" where
  "is_digit c = (48 \<le> (of_char c :: nat) \<and> (of_char c :: nat) \<le> 57)"

definition hex_val :: "char \<Rightarrow> nat option" where
  "hex_val c =
     (let n = (of_char c :: nat) in
      if 48 \<le> n \<and> n \<le> 57 then Some (n - 48)
      else if 65 \<le> n \<and> n \<le> 70 then Some (n - 55)
      else if 97 \<le> n \<and> n \<le> 102 then Some (n - 87)
      else None)"

text \<open>The character after a backslash: quote, backslash, slash, b, f, n, r, t.\<close>

definition unescape :: "char \<Rightarrow> char option" where
  "unescape e =
     (if e = CHR 0x22 then Some (CHR 0x22)
      else if e = CHR 0x5C then Some (CHR 0x5C)
      else if e = CHR ''/'' then Some (CHR ''/'')
      else if e = CHR ''b'' then Some (CHR 0x08)
      else if e = CHR ''f'' then Some (CHR 0x0C)
      else if e = CHR ''n'' then Some (CHR 0x0A)
      else if e = CHR ''r'' then Some (CHR 0x0D)
      else if e = CHR ''t'' then Some (CHR 0x09)
      else None)"

definition code_unit :: "char \<Rightarrow> char \<Rightarrow> char \<Rightarrow> char \<Rightarrow> char option" where
  "code_unit h1 h2 h3 h4 =
     (case (hex_val h1, hex_val h2, hex_val h3, hex_val h4) of
        (Some a, Some b, Some c, Some d) \<Rightarrow>
          (let n = 4096 * a + 256 * b + 16 * c + d
           in if n < 128 then Some (char_of n) else None)
      | _ \<Rightarrow> None)"

definition cons_to :: "char \<Rightarrow> (string \<times> string) option \<Rightarrow> (string \<times> string) option" where
  "cons_to ch r = (case r of None \<Rightarrow> None | Some (s, rest) \<Rightarrow> Some (ch # s, rest))"

text \<open>
  The characters of a string literal after its opening quote: the string, and the text
  after the closing quote.
\<close>

fun scan_string :: "string \<Rightarrow> (string \<times> string) option" where
  "scan_string [] = None"
| "scan_string (c # cs) =
     (if c = CHR 0x22 then Some ([], cs)
      else if c = CHR 0x5C then
        (case cs of
           [] \<Rightarrow> None
         | e # r \<Rightarrow>
             (if e = CHR ''u'' then
                (case r of
                   h1 # h2 # h3 # h4 # r' \<Rightarrow>
                     (case code_unit h1 h2 h3 h4 of
                        None \<Rightarrow> None
                      | Some ch \<Rightarrow> cons_to ch (scan_string r'))
                 | _ \<Rightarrow> None)
              else
                (case unescape e of
                   None \<Rightarrow> None
                 | Some ch \<Rightarrow> cons_to ch (scan_string r))))
      else if (of_char c :: nat) < 32 then None
      else cons_to c (scan_string cs))"

text \<open>An integer literal: an optional minus sign, then \<^verbatim>\<open>0\<close> or digits that do not start with \<^verbatim>\<open>0\<close>.\<close>

definition scan_number :: "string \<Rightarrow> (int \<times> string) option" where
  "scan_number cs =
     (let negative = (cs \<noteq> [] \<and> hd cs = CHR ''-'');
          r = (if negative then tl cs else cs);
          ds = (if r \<noteq> [] \<and> hd r = CHR ''0'' then ''0'' else takeWhile is_digit r);
          rest = drop (length ds) r;
          n = foldl (\<lambda>a d. 10 * a + (int (of_char d) - 48)) 0 ds
      in if ds = [] then None
         else if rest \<noteq> [] \<and> hd rest \<in> {CHR ''.'', CHR ''e'', CHR ''E''} then None
         else if 9007199254740992 < n then None
         else Some (if negative then - n else n, rest))"

text \<open>Of two members with one key, the later one is the property.\<close>

definition add_member ::
  "string \<Rightarrow> int jsval \<Rightarrow> (string \<times> int jsval) list \<Rightarrow> (string \<times> int jsval) list" where
  "add_member k v later = (if k \<in> fst ` set later then later else (k, v) # later)"

text \<open>
  A value, the elements of an array after its bracket, the members of an object after its
  brace. The first argument bounds the number of nested calls; every call is made after
  a character has been read, so the length of the text is enough.
\<close>

fun parse_value :: "nat \<Rightarrow> string \<Rightarrow> (int jsval \<times> string) option"
  and parse_elements :: "nat \<Rightarrow> string \<Rightarrow> (int jsval list \<times> string) option"
  and parse_members :: "nat \<Rightarrow> string \<Rightarrow> ((string \<times> int jsval) list \<times> string) option"
where
  "parse_value 0 cs = None"
| "parse_value (Suc fuel) cs =
     (case skip_ws cs of
        [] \<Rightarrow> None
      | c # r \<Rightarrow>
          if c = CHR ''{'' then
            (case skip_ws r of
               [] \<Rightarrow> None
             | d # r' \<Rightarrow>
                 if d = CHR ''}'' then Some (JObj [], r')
                 else (case parse_members fuel (d # r') of
                         None \<Rightarrow> None
                       | Some (kvs, rest) \<Rightarrow> Some (JObj kvs, rest)))
          else if c = CHR ''['' then
            (case skip_ws r of
               [] \<Rightarrow> None
             | d # r' \<Rightarrow>
                 if d = CHR '']'' then Some (JArr [], r')
                 else (case parse_elements fuel (d # r') of
                         None \<Rightarrow> None
                       | Some (vs, rest) \<Rightarrow> Some (JArr vs, rest)))
          else if c = CHR 0x22 then
            (case scan_string r of
               None \<Rightarrow> None
             | Some (s, rest) \<Rightarrow> Some (JStr s, rest))
          else if take 4 (c # r) = ''true'' then Some (JBool True, drop 3 r)
          else if take 5 (c # r) = ''false'' then Some (JBool False, drop 4 r)
          else if take 4 (c # r) = ''null'' then Some (JNull, drop 3 r)
          else (case scan_number (c # r) of
                  None \<Rightarrow> None
                | Some (n, rest) \<Rightarrow> Some (JNum n, rest)))"
| "parse_elements 0 cs = None"
| "parse_elements (Suc fuel) cs =
     (case parse_value fuel cs of
        None \<Rightarrow> None
      | Some (v, r) \<Rightarrow>
          (case skip_ws r of
             [] \<Rightarrow> None
           | c # r' \<Rightarrow>
               if c = CHR '']'' then Some ([v], r')
               else if c = CHR '','' then
                 (case parse_elements fuel r' of
                    None \<Rightarrow> None
                  | Some (vs, rest) \<Rightarrow> Some (v # vs, rest))
               else None))"
| "parse_members 0 cs = None"
| "parse_members (Suc fuel) cs =
     (case skip_ws cs of
        [] \<Rightarrow> None
      | q # r \<Rightarrow>
          if q \<noteq> CHR 0x22 then None
          else
            (case scan_string r of
               None \<Rightarrow> None
             | Some (k, r1) \<Rightarrow>
                 (case skip_ws r1 of
                    [] \<Rightarrow> None
                  | colon # r2 \<Rightarrow>
                      if colon \<noteq> CHR '':'' then None
                      else
                        (case parse_value fuel r2 of
                           None \<Rightarrow> None
                         | Some (v, r3) \<Rightarrow>
                             (case skip_ws r3 of
                                [] \<Rightarrow> None
                              | c # r4 \<Rightarrow>
                                  if c = CHR ''}'' then Some ([(k, v)], r4)
                                  else if c = CHR '','' then
                                    (case parse_members fuel r4 of
                                       None \<Rightarrow> None
                                     | Some (kvs, rest) \<Rightarrow> Some (add_member k v kvs, rest))
                                  else None)))))"

definition node_JSON_parse :: "string \<Rightarrow> int jsval option" where
  "node_JSON_parse s =
     (case parse_value (Suc (length s)) s of
        None \<Rightarrow> None
      | Some (v, rest) \<Rightarrow> if skip_ws rest = [] then Some v else None)"

text \<open>The decimal digits of a natural number, and of an integer.\<close>

fun show_nat :: "nat \<Rightarrow> string" where
  "show_nat n =
     (if n < 10 then [char_of (48 + n)] else show_nat (n div 10) @ [char_of (48 + n mod 10)])"

declare show_nat.simps [simp del]

definition show_int :: "int \<Rightarrow> string" where
  "show_int i = (if i < 0 then ''-'' @ show_nat (nat (- i)) else show_nat (nat i))"

text \<open>
  The text of a value in a concatenation, \<open>None\<close> where the conversion throws: an array is
  its elements' texts joined by commas, with nothing for \<^verbatim>\<open>null\<close> and \<^verbatim>\<open>undefined\<close>; an
  object is \<^verbatim>\<open>[object Object]\<close>, unless a property of its own hides \<^verbatim>\<open>toString\<close>.
\<close>

fun join_texts :: "(int jsval \<times> string option) list \<Rightarrow> string option" where
  "join_texts [] = Some []"
| "join_texts ((x, t) # rest) =
     (case (if x = JNull \<or> x = JUndefined then Some [] else t) of
        None \<Rightarrow> None
      | Some a \<Rightarrow>
          if rest = [] then Some a
          else (case join_texts rest of
                  None \<Rightarrow> None
                | Some b \<Rightarrow> Some (a @ '','' @ b)))"

primrec to_text :: "int jsval \<Rightarrow> string option" where
  "to_text JUndefined = Some ''undefined''"
| "to_text JNull = Some ''null''"
| "to_text (JBool b) = Some (if b then ''true'' else ''false'')"
| "to_text (JNum n) = Some (show_int n)"
| "to_text (JStr s) = Some s"
| "to_text (JArr xs) = join_texts (zip xs (map to_text xs))"
| "to_text (JObj kvs) =
     (if ''toString'' \<in> fst ` set kvs then None else Some ''[object Object]'')"

text \<open>An array or an object becomes its text before it is added; other values stay.\<close>

definition to_primitive :: "int jsval \<Rightarrow> int jsval option" where
  "to_primitive v =
     (case v of
        JArr xs \<Rightarrow> map_option JStr (to_text v)
      | JObj kvs \<Rightarrow> map_option JStr (to_text v)
      | _ \<Rightarrow> Some v)"

text \<open>
  The number of a primitive that is not a string. \<^verbatim>\<open>undefined\<close> is \<^verbatim>\<open>NaN\<close>, which is not
  an integer; the stream loop never adds \<^verbatim>\<open>undefined\<close>.
\<close>

fun to_number :: "int jsval \<Rightarrow> int option" where
  "to_number JNull = Some 0"
| "to_number (JBool b) = Some (if b then 1 else 0)"
| "to_number (JNum n) = Some n"
| "to_number v = None"

definition is_string :: "int jsval \<Rightarrow> bool" where
  "is_string v = (case v of JStr s \<Rightarrow> True | _ \<Rightarrow> False)"

definition node_plus :: "int jsval \<Rightarrow> int jsval \<Rightarrow> int jsval option" where
  "node_plus v w =
     (case (to_primitive v, to_primitive w) of
        (Some p, Some q) \<Rightarrow>
          if is_string p \<or> is_string q then
            (case (to_text p, to_text q) of
               (Some a, Some b) \<Rightarrow> Some (JStr (a @ b))
             | _ \<Rightarrow> None)
          else
            (case (to_number p, to_number q) of
               (Some a, Some b) \<Rightarrow> Some (JNum (a + b))
             | _ \<Rightarrow> None)
      | _ \<Rightarrow> None)"

definition node :: "int runtime" where
  "node = \<lparr>JSON_parse = node_JSON_parse, number_truthy = (\<lambda>n. n \<noteq> 0), plus_coerce = node_plus\<rparr>"

section \<open>Notions the properties are stated with\<close>

text \<open>
  The records of a stream, in arrival order: of every chunk, the lines that start with
  the marker, without it.
\<close>

definition records :: "string list \<Rightarrow> string list" where
  "records chunks = map slice6 (filter startsWith_data (concat (map split_lines chunks)))"

text \<open>
  A parsed record that carries no \<^verbatim>\<open>error\<close> field and whose \<^verbatim>\<open>answer\<close> field, when it has
  one, is a string.
\<close>

definition answer_record :: "'n jsval \<Rightarrow> bool" where
  "answer_record v =
     ((case get v ''error'' of None \<Rightarrow> True | Some e \<Rightarrow> e = JUndefined) \<and>
      (case get v ''answer'' of
         None \<Rightarrow> True
       | Some JUndefined \<Rightarrow> True
       | Some (JStr s) \<Rightarrow> True
       | Some a \<Rightarrow> False))"

text \<open>The answer fragment of a parsed record: the empty string when there is none.\<close>

definition answer_fragment :: "'n jsval \<Rightarrow> string" where
  "answer_fragment v = (case get v ''answer'' of Some (JStr s) \<Rightarrow> s | _ \<Rightarrow> [])"

definition record_fragment :: "'n runtime \<Rightarrow> string \<Rightarrow> string" where
  "record_fragment R t = (case JSON_parse R t of None \<Rightarrow> [] | Some v \<Rightarrow> answer_fragment v)"

text \<open>
  A stream as the sequence of its lines, chunk by chunk. A line is a record, sent as the
  marker \<^verbatim>\<open>data: \<close> followed by the record's text, or any other line (an empty line, an
  \<^verbatim>\<open>event:\<close> line), and every line ends with a line feed. \<open>chunk_text\<close> is the chunk that
  carries the lines, \<open>record_texts\<close> the texts of its records in order.
\<close>

datatype stream_line = DataLine string | OtherLine string

fun line_text :: "stream_line \<Rightarrow> string" where
  "line_text (DataLine r) = ''data: '' @ r"
| "line_text (OtherLine l) = l"

definition chunk_text :: "stream_line list \<Rightarrow> string" where
  "chunk_text ls = concat (map (\<lambda>x. line_text x @ [newline]) ls)"

fun record_texts :: "stream_line list \<Rightarrow> string list" where
  "record_texts [] = []"
| "record_texts (DataLine r # ls) = r # record_texts ls"
| "record_texts (OtherLine l # ls) = record_texts ls"

text \<open>
  A line of a well-formed stream: a record that holds no line feed and parses to a record
  without an error field whose answer, if present, is a string; or another line that
  holds no line feed and does not start with the marker.
\<close>

definition well_formed_line :: "'n runtime \<Rightarrow> stream_line \<Rightarrow> bool" where
  "well_formed_line R x =
     (case x of
        DataLine r \<Rightarrow>
          newline \<notin> set r \<and>
          (case JSON_parse R r of None \<Rightarrow> False | Some v \<Rightarrow> answer_record v)
      | OtherLine l \<Rightarrow> newline \<notin> set l \<and> take 6 l \<noteq> ''data: '')"

text \<open>
  Arguments whose \<^verbatim>\<open>query\<close> is missing or not a string (arguments that are not an object
  have none), and arguments whose \<^verbatim>\<open>imageFilePath\<close> names a file that does not exist.
\<close>

definition query_not_a_string :: "'n jsval \<Rightarrow> bool" where
  "query_not_a_string args = (case get args ''query'' of Some (JStr s) \<Rightarrow> False | _ \<Rightarrow> True)"

definition image_file_missing :: "'n world \<Rightarrow> 'n jsval \<Rightarrow> bool" where
  "image_file_missing W args =
     (case get args ''imageFilePath'' of Some (JStr p) \<Rightarrow> \<not> existsSync W p | _ \<Rightarrow> False)"

text \<open>A run ends with a fatal error: an uncaught exception, or an exit with a nonzero code.\<close>

definition fatal :: "process_end \<Rightarrow> bool" where
  "fatal e = (case e of Uncaught msg \<Rightarrow> True | Exit n \<Rightarrow> n \<noteq> 0 | Serving \<Rightarrow> False | Finished \<Rightarrow> False)"

text \<open>The reply of \<^verbatim>\<open>POST /messages\<close> when there is no channel.\<close>

definition no_channel_reply :: post_result where
  "no_channel_reply =
     \<lparr>response = \<lparr>status = 400, body = [(''error'', ''No active SSE connection'')]\<rparr>,
      forwarded_to = None\<rparr>"

definition is_open :: "'m event \<Rightarrow> bool" where
  "is_open e = (case e of OpenSse c \<Rightarrow> True | _ \<Rightarrow> False)"

text \<open>
  A remote API for concrete runs: one file exists, an upload returns a file handle, and
  the chat answers with one record. A tool call with that file, for the same runs.
\<close>

definition sample_world :: "int world" where
  \<open>sample_world =
     \<lparr>existsSync = (\<lambda>p. p = ''/tmp/ui.png''),
      files_upload = (\<lambda>p u. UploadData (JObj [(''id'', JStr ''file-1'')])),
      chat_messages = (\<lambda>b. ChatStream [''data: {"answer":"ok"}'' @ [newline]])\<rparr>\<close>

definition image_request :: "int request" where
  "image_request =
     \<lparr>tool_name = tool,
      arguments = JObj [(''query'', JStr ''a login form''), (''imageFilePath'', JStr ''/tmp/ui.png'')]\<rparr>"

section \<open>Properties of the stream aggregator\<close>

lemma split_lines_nonempty: "split_lines s \<noteq> []"
  by (induction s) (auto split: list.splits)

lemma get_None_iff: "get v k = None \<longleftrightarrow> v = JUndefined \<or> v = JNull"
  by (cases v) (auto split: option.splits)

lemma process_line_answer_record:
  assumes "startsWith_data l" and "JSON_parse R (slice6 l) = Some v" and "answer_record v"
  shows "process_line R \<lparr>fullResponse = JStr acc, isError = b\<rparr> l =
         Continue \<lparr>fullResponse = JStr (acc @ answer_fragment v), isError = b\<rparr>"
  using assms
  by (auto simp: process_line_def answer_record_def answer_fragment_def or_else_def get_None_iff
           split: option.splits jsval.splits)

lemma process_line_other:
  "\<not> startsWith_data l \<Longrightarrow> process_line R st l = Continue st"
  by (simp add: process_line_def)

lemma process_lines_answer_records:
  assumes "\<forall>l \<in> set ls. startsWith_data l \<longrightarrow> (\<exists>v. JSON_parse R (slice6 l) = Some v \<and> answer_record v)"
  shows "process_lines R \<lparr>fullResponse = JStr acc, isError = b\<rparr> ls =
         \<lparr>fullResponse = JStr (acc @ concat (map (record_fragment R) (map slice6 (filter startsWith_data ls)))),
          isError = b\<rparr>"
  using assms
proof (induction ls arbitrary: acc)
  case Nil
  then show ?case by simp
next
  case (Cons l ls)
  show ?case
  proof (cases "startsWith_data l")
    case False
    with Cons show ?thesis by (simp add: process_line_other)
  next
    case True
    with Cons.prems obtain v where v: "JSON_parse R (slice6 l) = Some v" "answer_record v"
      by auto
    have rest: "\<forall>l \<in> set ls. startsWith_data l \<longrightarrow> (\<exists>v. JSON_parse R (slice6 l) = Some v \<and> answer_record v)"
      using Cons.prems by simp
    show ?thesis
      using True v Cons.IH [OF rest, of "acc @ answer_fragment v"]
      by (simp add: process_line_answer_record record_fragment_def)
  qed
qed

lemma process_chunks_answer_records:
  assumes "\<forall>t \<in> set (records chunks). \<exists>v. JSON_parse R t = Some v \<and> answer_record v"
  shows "process_chunks R \<lparr>fullResponse = JStr acc, isError = b\<rparr> chunks =
         \<lparr>fullResponse = JStr (acc @ concat (map (record_fragment R) (records chunks))), isError = b\<rparr>"
  using assms
proof (induction chunks arbitrary: acc)
  case Nil
  then show ?case by (simp add: records_def)
next
  case (Cons c cs)
  have here: "\<forall>l \<in> set (split_lines c). startsWith_data l \<longrightarrow> (\<exists>v. JSON_parse R (slice6 l) = Some v \<and> answer_record v)"
    using Cons.prems by (auto simp: records_def)
  have later: "\<forall>t \<in> set (records cs). \<exists>v. JSON_parse R t = Some v \<and> answer_record v"
    using Cons.prems by (auto simp: records_def)
  show ?case
    using process_lines_answer_records [OF here] Cons.IH [OF later]
    by (simp add: records_def)
qed

lemma aggregate_concatenates_answers:
  assumes "\<forall>t \<in> set (records chunks). \<exists>v. JSON_parse R t = Some v \<and> answer_record v"
  shows "aggregate R chunks =
         \<lparr>fullResponse = JStr (concat (map (record_fragment R) (records chunks))), isError = False\<rparr>"
  using process_chunks_answer_records [OF assms, of "[]" False]
  by (simp add: aggregate_def)

lemma split_lines_line:
  "newline \<notin> set l \<Longrightarrow> split_lines (l @ newline # rest) = l # split_lines rest"
  by (induction l) (auto split: list.splits)

lemma line_text_no_newline: "well_formed_line R x \<Longrightarrow> newline \<notin> set (line_text x)"
  by (cases x) (auto simp: well_formed_line_def newline_def)

lemma split_chunk_text:
  "\<forall>x \<in> set ls. well_formed_line R x \<Longrightarrow> split_lines (chunk_text ls) = map line_text ls @ [[]]"
proof (induction ls)
  case Nil
  then show ?case by (simp add: chunk_text_def)
next
  case (Cons x ls)
  have "newline \<notin> set (line_text x)"
    using Cons.prems line_text_no_newline by auto
  then have "split_lines (line_text x @ newline # chunk_text ls) = line_text x # split_lines (chunk_text ls)"
    by (rule split_lines_line)
  then show ?case
    using Cons by (simp add: chunk_text_def)
qed

lemma records_of_lines:
  "\<forall>x \<in> set ls. well_formed_line R x \<Longrightarrow>
   map slice6 (filter startsWith_data (map line_text ls @ [[]])) = record_texts ls"
proof (induction ls)
  case Nil
  then show ?case by (simp add: startsWith_data_def)
next
  case (Cons x ls)
  then show ?case
    by (cases x) (simp_all add: startsWith_data_def slice6_def well_formed_line_def)
qed

lemma records_of_chunk_texts:
  "\<forall>ls \<in> set stream. \<forall>x \<in> set ls. well_formed_line R x \<Longrightarrow>
   records (map chunk_text stream) = concat (map record_texts stream)"
proof (induction stream)
  case Nil
  then show ?case by (simp add: records_def)
next
  case (Cons ls stream)
  have here: "\<forall>x \<in> set ls. well_formed_line R x" using Cons.prems by simp
  have "records (chunk_text ls # map chunk_text stream) =
        map slice6 (filter startsWith_data (split_lines (chunk_text ls))) @ records (map chunk_text stream)"
    by (simp add: records_def)
  then show ?case
    using Cons split_chunk_text [OF here] records_of_lines [OF here] by simp
qed

lemma record_texts_parse:
  "\<forall>x \<in> set ls. well_formed_line R x \<Longrightarrow>
   \<forall>t \<in> set (record_texts ls). \<exists>v. JSON_parse R t = Some v \<and> answer_record v"
proof (induction ls)
  case Nil
  then show ?case by simp
next
  case (Cons x ls)
  then show ?case
    by (cases x) (auto simp: well_formed_line_def split: option.splits)
qed

text \<open>
  Claim C1. Take any stream given by its lines, chunk by chunk, where every record
  parses to a record without an error field whose answer, if present, is a string, and
  the other lines do not start with the marker. The aggregated text is the concatenation
  of the answer fragments of all records of all chunks, in arrival order (the empty
  string for a record without an answer), and \<open>isError\<close> is false.
\<close>

theorem aggregate_of_answer_records:
  assumes "\<forall>ls \<in> set stream. \<forall>x \<in> set ls. well_formed_line R x"
  shows "aggregate R (map chunk_text stream) =
         \<lparr>fullResponse = JStr (concat (map (record_fragment R) (concat (map record_texts stream)))),
          isError = False\<rparr>"
proof -
  have recs: "records (map chunk_text stream) = concat (map record_texts stream)"
    using assms by (rule records_of_chunk_texts)
  have "\<forall>t \<in> set (concat (map record_texts stream)). \<exists>v. JSON_parse R t = Some v \<and> answer_record v"
    using assms record_texts_parse by fastforce
  then have "\<forall>t \<in> set (records (map chunk_text stream)). \<exists>v. JSON_parse R t = Some v \<and> answer_record v"
    by (simp only: recs)
  from aggregate_concatenates_answers [OF this] show ?thesis
    by (simp only: recs)
qed

lemma sample_parses:
  \<open>JSON_parse node ''{"answer":"Hel"}'' = Some (JObj [(''answer'', JStr ''Hel'')])\<close>
  \<open>JSON_parse node ''{"answer":"lo"}'' = Some (JObj [(''answer'', JStr ''lo'')])\<close>
  \<open>JSON_parse node ''{"event":"ping"}'' = Some (JObj [(''event'', JStr ''ping'')])\<close>
  \<open>JSON_parse node ''{"answer":", world"}'' = Some (JObj [(''answer'', JStr '', world'')])\<close>
  by code_simp+

theorem aggregate_of_answer_records_witness:
  \<open>chunk_text [DataLine ''{"answer":"Hel"}'', OtherLine [], DataLine ''{"answer":"lo"}'', OtherLine []] =
     ''data: {"answer":"Hel"}'' @ [newline, newline] @ ''data: {"answer":"lo"}'' @ [newline, newline] \<and>
   chunk_text [OtherLine ''event: ping'', DataLine ''{"event":"ping"}'', DataLine ''{"answer":", world"}''] =
     ''event: ping'' @ [newline] @ ''data: {"event":"ping"}'' @ [newline] @
     ''data: {"answer":", world"}'' @ [newline] \<and>
   aggregate node
     (map chunk_text
        [[DataLine ''{"answer":"Hel"}'', OtherLine [], DataLine ''{"answer":"lo"}'', OtherLine []],
         [OtherLine ''event: ping'', DataLine ''{"event":"ping"}'', DataLine ''{"answer":", world"}'']]) =
     \<lparr>fullResponse = JStr ''Hello, world'', isError = False\<rparr>\<close>
proof -
  let ?stream = \<open>[[DataLine ''{"answer":"Hel"}'', OtherLine [], DataLine ''{"answer":"lo"}'', OtherLine []],
         [OtherLine ''event: ping'', DataLine ''{"event":"ping"}'', DataLine ''{"answer":", world"}'']]\<close>
  have wf: "\<forall>ls \<in> set ?stream. \<forall>x \<in> set ls. well_formed_line node x"
    using sample_parses by (simp add: well_formed_line_def answer_record_def newline_def)
  show ?thesis
    using aggregate_of_answer_records [OF wf] sample_parses
    by (simp add: chunk_text_def record_fragment_def answer_fragment_def)
qed

lemma process_line_isError:
  "process_line R st l = Continue st' \<or> process_line R st l = Break st' \<Longrightarrow>
   isError st \<Longrightarrow> isError st'"
  by (auto simp: process_line_def split: if_splits option.splits)

lemma process_lines_isError: "isError st \<Longrightarrow> isError (process_lines R st ls)"
proof (induction ls arbitrary: st)
  case Nil
  then show ?case by simp
next
  case (Cons l ls)
  show ?case
  proof (cases "process_line R st l")
    case (Continue st')
    with Cons.prems have "isError st'" using process_line_isError by blast
    with Continue Cons.IH show ?thesis by simp
  next
    case (Break st')
    with Cons.prems have "isError st'" using process_line_isError by blast
    with Break show ?thesis by simp
  qed
qed

lemma isError_never_cleared: "isError st \<Longrightarrow> isError (process_chunks R st chunks)"
  by (induction chunks arbitrary: st) (simp_all add: process_lines_isError)

lemma error_record_breaks:
  assumes "startsWith_data l" and "JSON_parse R (slice6 l) = Some v"
    and "get v ''error'' = Some e" and "truthy R e"
  shows "process_line R st l = Break \<lparr>fullResponse = e, isError = True\<rparr>"
  using assms by (simp add: process_line_def)

lemma process_chunks_append:
  "process_chunks R st (cs @ ds) = process_chunks R (process_chunks R st cs) ds"
  by (induction cs arbitrary: st) simp_all

lemma aggregate_snoc:
  "aggregate R (cs @ [c]) = process_lines R (aggregate R cs) (split_lines c)"
  by (simp add: aggregate_def process_chunks_append)

text \<open>
  Claim C2. The handler's \<^verbatim>\<open>break\<close> leaves only the loop over the lines of the current
  chunk. A stream whose first chunk holds an error record and whose second chunk holds an
  answer record ends with the error message followed by the answer; a second error
  record in a later chunk replaces the message. \<open>isError\<close> stays true in both
  (\<open>isError_never_cleared\<close> is the general fact), and the command-line tool, which
  returns at the error record, stops there (\<open>cli_stops_at_first_error\<close>).
\<close>

theorem error_then_later_chunks:
  \<open>aggregate node [''data: {"error":"boom"}'' @ [newline], ''data: {"answer":"late"}'' @ [newline]] =
     \<lparr>fullResponse = JStr ''boomlate'', isError = True\<rparr> \<and>
   aggregate node [''data: {"error":"boom"}'' @ [newline], ''data: {"error":"bang"}'' @ [newline]] =
     \<lparr>fullResponse = JStr ''bang'', isError = True\<rparr>\<close>
  by code_simp

lemma cli_stops_at_first_error:
  \<open>cli_chunks node \<lparr>stdout = [], stderr = []\<rparr>
     [''data: {"error":"boom"}'' @ [newline], ''data: {"answer":"late"}'' @ [newline]] =
   \<lparr>stdout = [], stderr = [LogStreamError (JStr ''boom'')]\<rparr>\<close>
  by code_simp

text \<open>
  Claim C3. The lines of a chunk are split from that chunk alone: whatever the earlier
  chunks were, the last chunk is processed by splitting its own text. So a record cut
  in two by a chunk boundary is lost: the text \<^verbatim>\<open>data: {"answer":"Hello"}\<close> with its line
  feed aggregates to \<^verbatim>\<open>Hello\<close> as one chunk and to the empty string as two, cut after
  \<^verbatim>\<open>Hel\<close>. The command-line tool splits the same way and prints nothing for the two chunks.
\<close>

theorem chunk_boundary_truncates_record:
  \<open>(\<forall>(R :: int runtime) cs c.
      aggregate R (cs @ [c]) = process_lines R (aggregate R cs) (split_lines c)) \<and>
   (\<exists>c1 c2. c1 @ c2 = ''data: {"answer":"Hello"}'' @ [newline] \<and>
      aggregate node [c1 @ c2] = \<lparr>fullResponse = JStr ''Hello'', isError = False\<rparr> \<and>
      aggregate node [c1, c2] = \<lparr>fullResponse = JStr [], isError = False\<rparr> \<and>
      stdout (cli_chunks node \<lparr>stdout = [], stderr = []\<rparr> [c1 @ c2]) = ''Hello'' \<and>
      stdout (cli_chunks node \<lparr>stdout = [], stderr = []\<rparr> [c1, c2]) = [])\<close>
proof (intro conjI allI)
  fix R :: "int runtime" and cs c
  show "aggregate R (cs @ [c]) = process_lines R (aggregate R cs) (split_lines c)"
    by (rule aggregate_snoc)
next
  have split: \<open>''data: {"answer":"Hel'' @ (''lo"}'' @ [newline]) = ''data: {"answer":"Hello"}'' @ [newline]\<close>
    by simp
  have whole: \<open>aggregate node [''data: {"answer":"Hel'' @ (''lo"}'' @ [newline])] =
      \<lparr>fullResponse = JStr ''Hello'', isError = False\<rparr>\<close>
    by code_simp
  have parts: \<open>aggregate node [''data: {"answer":"Hel'', ''lo"}'' @ [newline]] =
      \<lparr>fullResponse = JStr [], isError = False\<rparr>\<close>
    by code_simp
  have cli_whole: \<open>stdout (cli_chunks node \<lparr>stdout = [], stderr = []\<rparr>
      [''data: {"answer":"Hel'' @ (''lo"}'' @ [newline])]) = ''Hello''\<close>
    by code_simp
  have cli_parts: \<open>stdout (cli_chunks node \<lparr>stdout = [], stderr = []\<rparr>
      [''data: {"answer":"Hel'', ''lo"}'' @ [newline]]) = []\<close>
    by code_simp
  show \<open>\<exists>c1 c2. c1 @ c2 = ''data: {"answer":"Hello"}'' @ [newline] \<and>
      aggregate node [c1 @ c2] = \<lparr>fullResponse = JStr ''Hello'', isError = False\<rparr> \<and>
      aggregate node [c1, c2] = \<lparr>fullResponse = JStr [], isError = False\<rparr> \<and>
      stdout (cli_chunks node \<lparr>stdout = [], stderr = []\<rparr> [c1 @ c2]) = ''Hello'' \<and>
      stdout (cli_chunks node \<lparr>stdout = [], stderr = []\<rparr> [c1, c2]) = []\<close>
    using split whole parts cli_whole cli_parts by blast
qed

text \<open>
  Claim C10. A parsed record whose \<^verbatim>\<open>error\<close> field is present and is the empty string,
  \<^verbatim>\<open>false\<close>, \<^verbatim>\<open>null\<close> or a falsy number (\<^verbatim>\<open>0\<close>) is handled as an answer record: the loop goes
  on, \<open>isError\<close> is unchanged, and the text becomes the old text plus
  \<^verbatim>\<open>answer || ""\<close> (unchanged when that addition throws). On a text that is a string, a
  string answer is appended and a missing or falsy answer leaves the text as it is.
\<close>

theorem falsy_error_field_is_ignored:
  assumes "startsWith_data line"
    and "JSON_parse R (slice6 line) = Some (JObj kvs)"
    and "map_of kvs ''error'' = Some e"
    and "e = JStr [] \<or> e = JBool False \<or> e = JNull \<or> (\<exists>n. e = JNum n \<and> \<not> number_truthy R n)"
    and "get (JObj kvs) ''answer'' = Some a"
  shows "process_line R st line =
           Continue (case js_plus R (fullResponse st) (or_else R a (JStr [])) of
                       None \<Rightarrow> st
                     | Some t \<Rightarrow> st\<lparr>fullResponse := t\<rparr>) \<and>
         (\<exists>st'. process_line R st line = Continue st' \<and> isError st' = isError st) \<and>
         (\<forall>acc s. fullResponse st = JStr acc \<and> a = JStr s \<longrightarrow>
            process_line R st line = Continue (st\<lparr>fullResponse := JStr (acc @ s)\<rparr>)) \<and>
         (\<forall>acc. fullResponse st = JStr acc \<and> \<not> truthy R a \<longrightarrow>
            process_line R st line = Continue (st\<lparr>fullResponse := JStr acc\<rparr>))"
proof -
  have falsy: "\<not> truthy R e" using assms(4) by auto
  have main: "process_line R st line =
           Continue (case js_plus R (fullResponse st) (or_else R a (JStr [])) of
                       None \<Rightarrow> st
                     | Some t \<Rightarrow> st\<lparr>fullResponse := t\<rparr>)"
    using assms(1,2,3,5) falsy by (simp add: process_line_def split: option.splits)
  have same: "\<exists>st'. process_line R st line = Continue st' \<and> isError st' = isError st"
    unfolding main by (simp split: option.splits)
  have str: "process_line R st line = Continue (st\<lparr>fullResponse := JStr (acc @ s)\<rparr>)"
    if "fullResponse st = JStr acc" "a = JStr s" for acc s
    unfolding main using that by (simp add: or_else_def)
  have none: "process_line R st line = Continue (st\<lparr>fullResponse := JStr acc\<rparr>)"
    if "fullResponse st = JStr acc" "\<not> truthy R a" for acc
    unfolding main using that by (simp add: or_else_def)
  show ?thesis
    using main same str none by blast
qed

lemma zero_error_parse:
  \<open>JSON_parse node (slice6 ''data: {"error":0,"answer":"a"}'') =
     Some (JObj [(''error'', JNum 0), (''answer'', JStr ''a'')])\<close>
  by code_simp

theorem falsy_error_field_is_ignored_witness:
  \<open>process_line node \<lparr>fullResponse = JStr ''x'', isError = False\<rparr> ''data: {"error":0,"answer":"a"}'' =
     Continue \<lparr>fullResponse = JStr ''xa'', isError = False\<rparr>\<close>
proof -
  have 1: \<open>startsWith_data ''data: {"error":0,"answer":"a"}''\<close>
    by (simp add: startsWith_data_def)
  have 3: "map_of [(''error'', JNum 0), (''answer'', JStr ''a'' :: int jsval)] ''error'' = Some (JNum 0)"
    by simp
  have 4: "JNum (0::int) = JStr [] \<or> JNum (0::int) = JBool False \<or> JNum (0::int) = JNull \<or>
           (\<exists>n. JNum (0::int) = JNum n \<and> \<not> number_truthy node n)"
    by (simp add: node_def)
  have 5: "get (JObj [(''error'', JNum 0), (''answer'', JStr ''a'' :: int jsval)]) ''answer'' = Some (JStr ''a'')"
    by simp
  show ?thesis
    using falsy_error_field_is_ignored [OF 1 zero_error_parse 3 4 5, of "\<lparr>fullResponse = JStr ''x'', isError = False\<rparr>"]
    by (simp add: or_else_def)
qed

section \<open>Properties of the tool-call handler\<close>

text \<open>
  Claim C4, as amended. A tool call whose \<^verbatim>\<open>query\<close> is missing or not a string, or whose
  \<^verbatim>\<open>imageFilePath\<close> names a file that does not exist, is rejected by both adapters before
  any request is sent: with InvalidParams when it names the registered tool, and with
  MethodNotFound when it names another tool, since the name is checked first.
\<close>

theorem invalid_arguments_rejected:
  assumes "query_not_a_string (arguments req) \<or> image_file_missing W (arguments req)"
  shows "pipe_callTool R W req =
           ([], Threw (if tool_name req = tool
                       then McpError InvalidParams ''Invalid chat request arguments''
                       else McpError MethodNotFound (''Unknown tool: '' @ tool_name req))) \<and>
         push_callTool R W req = pipe_callTool R W req"
proof -
  have "\<not> isValidChatRequest W (arguments req)"
    using assms
    by (auto simp: isValidChatRequest_def query_not_a_string_def image_file_missing_def
             split: option.splits jsval.splits)
  then show ?thesis
    by (simp add: pipe_callTool_def push_callTool_def callTool_def)
qed

theorem invalid_arguments_rejected_witness:
  "pipe_callTool node sample_world \<lparr>tool_name = tool, arguments = JObj [(''query'', JNum 7)]\<rparr> =
     ([], Threw (McpError InvalidParams ''Invalid chat request arguments''))"
proof -
  have bad: "query_not_a_string (arguments \<lparr>tool_name = tool, arguments = JObj [(''query'', JNum (7::int))]\<rparr>) \<or>
             image_file_missing sample_world (arguments \<lparr>tool_name = tool, arguments = JObj [(''query'', JNum (7::int))]\<rparr>)"
    by (simp add: query_not_a_string_def)
  show ?thesis
    using invalid_arguments_rejected [OF bad, of node] by simp
qed

text \<open>
  The claim as stated fails for a call that names another tool: the arguments are never
  looked at, and the error is MethodNotFound.
\<close>

theorem unknown_tool_counterexample:
  "query_not_a_string (JObj [] :: int jsval) \<and>
   pipe_callTool node sample_world \<lparr>tool_name = ''other-tool'', arguments = JObj []\<rparr> =
     ([], Threw (McpError MethodNotFound ''Unknown tool: other-tool'')) \<and>
   push_callTool node sample_world \<lparr>tool_name = ''other-tool'', arguments = JObj []\<rparr> =
     ([], Threw (McpError MethodNotFound ''Unknown tool: other-tool''))"
  by (simp add: query_not_a_string_def pipe_callTool_def push_callTool_def callTool_def tool_def)

text \<open>
  Claim C5, as amended. Validation asks only that \<^verbatim>\<open>query\<close> is a string. A call of the
  registered tool whose \<^verbatim>\<open>query\<close> is the empty string (and that has no \<^verbatim>\<open>imageFilePath\<close>)
  passes it: the adapter sends the \<^verbatim>\<open>/chat-messages\<close> request with the empty query and
  throws no protocol error.
\<close>

theorem empty_query_is_sent:
  assumes "tool_name req = tool"
    and "arguments req = JObj kvs"
    and "map_of kvs ''query'' = Some (JStr [])"
    and "map_of kvs ''imageFilePath'' = None"
  shows "isValidChatRequest W (arguments req) \<and>
         fst (pipe_callTool R W req) =
           [ChatMessages \<lparr>query = JStr [],
                          inputs = or_else R (case map_of kvs ''inputs'' of None \<Rightarrow> JUndefined | Some i \<Rightarrow> i) (JObj []),
                          files = [], user = ''mcp-user'', response_mode = ''streaming''\<rparr>] \<and>
         (\<forall>code msg. snd (pipe_callTool R W req) \<noteq> Threw (McpError code msg)) \<and>
         push_callTool R W req = pipe_callTool R W req"
proof -
  have valid: "isValidChatRequest W (arguments req)"
    using assms by (simp add: isValidChatRequest_def)
  have run: "callTool R W req = post_chat R W (JObj kvs) []"
    using assms valid by (simp add: callTool_def send_chat_def)
  show ?thesis
    using valid assms(3)
    by (auto simp: pipe_callTool_def push_callTool_def run post_chat_def Let_def
             split: option.splits chat_reply.splits)
qed

theorem empty_query_is_sent_witness:
  "fst (pipe_callTool node sample_world \<lparr>tool_name = tool, arguments = JObj [(''query'', JStr [])]\<rparr>) =
     [ChatMessages \<lparr>query = JStr [], inputs = JObj [], files = [], user = ''mcp-user'',
                    response_mode = ''streaming''\<rparr>]"
  using empty_query_is_sent [of "\<lparr>tool_name = tool, arguments = JObj [(''query'', JStr [])]\<rparr>"
      "[(''query'', JStr [])]" sample_world node]
  by (simp add: or_else_def)

text \<open>The claim as stated fails: the empty query is valid and is sent to the chat API.\<close>

theorem empty_query_counterexample:
  \<open>isValidChatRequest sample_world (JObj [(''query'', JStr [])]) \<and>
   pipe_callTool node sample_world \<lparr>tool_name = tool, arguments = JObj [(''query'', JStr [])]\<rparr> =
     ([ChatMessages \<lparr>query = JStr [], inputs = JObj [], files = [], user = ''mcp-user'',
                     response_mode = ''streaming''\<rparr>],
      Returned \<lparr>content_text = JStr ''ok'', response_isError = False\<rparr>) \<and>
   push_callTool node sample_world \<lparr>tool_name = tool, arguments = JObj [(''query'', JStr [])]\<rparr> =
     pipe_callTool node sample_world \<lparr>tool_name = tool, arguments = JObj [(''query'', JStr [])]\<rparr>\<close>
proof -
  have agg: \<open>aggregate node [''data: {"answer":"ok"}'' @ [newline]] =
      \<lparr>fullResponse = JStr ''ok'', isError = False\<rparr>\<close>
    by code_simp
  show ?thesis
    using agg
    by (simp add: isValidChatRequest_def pipe_callTool_def push_callTool_def callTool_def
          send_chat_def post_chat_def or_else_def sample_world_def)
qed

lemma post_chat_user: "\<forall>c \<in> set (fst (post_chat R W requestArgs fs)). call_user c = ''mcp-user''"
  by (auto simp: post_chat_def Let_def split: option.splits)

lemma send_chat_user: "\<forall>c \<in> set (fst (send_chat R W requestArgs)). call_user c = ''mcp-user''"
proof -
  have chat: "c \<in> set calls \<Longrightarrow> call_user c = ''mcp-user''"
    if "post_chat R W requestArgs fs = (calls, res)" for fs calls res c
    using post_chat_user [of R W requestArgs fs] that by simp
  show ?thesis
    using post_chat_user [of R W requestArgs "[]"]
    by (auto simp: send_chat_def uploadFile_def
             split: option.splits jsval.splits sum.splits prod.splits upload_reply.splits
             dest: chat)
qed

lemma callTool_user: "\<forall>c \<in> set (fst (callTool R W req)). call_user c = ''mcp-user''"
  using send_chat_user [of R W "arguments req"] by (simp add: callTool_def)

lemma cli_post_chat_user: "\<forall>c \<in> set (cli_calls (cli_post_chat R W q fs)). call_user c = ''cli-user''"
  by (simp add: cli_post_chat_def Let_def)

lemma cli_upload_user: "\<forall>c \<in> set (cli_calls (cli_upload R W q p)). call_user c = ''cli-user''"
  using cli_post_chat_user [of R W q]
  by (auto simp: cli_upload_def Let_def split: upload_reply.splits option.splits)

lemma cli_send_user: "\<forall>c \<in> set (cli_calls (cli_send R W q i)). call_user c = ''cli-user''"
  using cli_post_chat_user [of R W q "[]"] cli_upload_user [of R W q]
  by (auto simp: cli_send_def split: option.splits)

lemma cli_main_user: "\<forall>c \<in> set (cli_calls (fst (cli_main R W k args))). call_user c = ''cli-user''"
  using cli_send_user [of R W]
  by (auto simp: cli_main_def sendChatMessage_def split: option.splits)

text \<open>
  Claim C7, as amended. Every request the pipe adapter or the push adapter sends, the
  upload and the chat message alike, carries the user \<^verbatim>\<open>mcp-user\<close>; every request the
  command-line tool sends carries \<^verbatim>\<open>cli-user\<close>.
\<close>

theorem user_identifiers:
  "(\<forall>c \<in> set (fst (pipe_callTool R W req)). call_user c = ''mcp-user'') \<and>
   (\<forall>c \<in> set (fst (push_callTool R W req)). call_user c = ''mcp-user'') \<and>
   (\<forall>c \<in> set (cli_calls (fst (cli_main R W api_key args))). call_user c = ''cli-user'')"
  using callTool_user [of R W req] cli_main_user [of R W api_key args]
  by (simp add: pipe_callTool_def push_callTool_def)

lemma image_request_calls:
  "fst (callTool node sample_world image_request) =
     [FilesUpload ''/tmp/ui.png'' ''mcp-user'',
      ChatMessages \<lparr>query = JStr ''a login form'', inputs = JObj [],
                     files = [\<lparr>file_type = ''image'', transfer_method = ''local_file'',
                               upload_file_id = JStr ''file-1''\<rparr>],
                     user = ''mcp-user'', response_mode = ''streaming''\<rparr>]"
  by (simp add: callTool_def image_request_def isValidChatRequest_def send_chat_def uploadFile_def
        post_chat_def or_else_def sample_world_def)

lemma cli_image_calls:
  "cli_calls (fst (cli_main node sample_world (Some ''app-key'') [''a login form'', ''/tmp/ui.png''])) =
     [FilesUpload ''/tmp/ui.png'' ''cli-user'',
      ChatMessages \<lparr>query = JStr ''a login form'', inputs = JObj [],
                     files = [\<lparr>file_type = ''image'', transfer_method = ''local_file'',
                               upload_file_id = JStr ''file-1''\<rparr>],
                     user = ''cli-user'', response_mode = ''streaming''\<rparr>]"
  by (simp add: cli_main_def argv_def sendChatMessage_def missing_def cli_send_def cli_upload_def
        cli_post_chat_def sample_world_def)

theorem user_identifiers_witness:
  "call_user ` set (fst (pipe_callTool node sample_world image_request)) = {''mcp-user''} \<and>
   call_user ` set (fst (push_callTool node sample_world image_request)) = {''mcp-user''} \<and>
   call_user ` set (cli_calls (fst (cli_main node sample_world (Some ''app-key'')
                                      [''a login form'', ''/tmp/ui.png'']))) = {''cli-user''}"
proof -
  have "fst (pipe_callTool node sample_world image_request) \<noteq> []"
    and "fst (push_callTool node sample_world image_request) \<noteq> []"
    and "cli_calls (fst (cli_main node sample_world (Some ''app-key'')
                           [''a login form'', ''/tmp/ui.png''])) \<noteq> []"
    by (simp_all add: pipe_callTool_def push_callTool_def image_request_calls cli_image_calls)
  then show ?thesis
    using user_identifiers [of node sample_world image_request "Some ''app-key''"
        "[''a login form'', ''/tmp/ui.png'']"]
    by (auto simp: neq_Nil_conv)
qed

text \<open>
  The claim as stated fails: on a call with an image both adapters send two requests,
  both as \<^verbatim>\<open>mcp-user\<close>, and none as \<^verbatim>\<open>pipe-user\<close> or \<^verbatim>\<open>push-user\<close>.
\<close>

theorem adapters_send_mcp_user_counterexample:
  "map call_user (fst (pipe_callTool node sample_world image_request)) = [''mcp-user'', ''mcp-user''] \<and>
   map call_user (fst (push_callTool node sample_world image_request)) = [''mcp-user'', ''mcp-user''] \<and>
   ''pipe-user'' \<notin> call_user ` set (fst (pipe_callTool node sample_world image_request)) \<and>
   ''push-user'' \<notin> call_user ` set (fst (push_callTool node sample_world image_request))"
  by (simp add: pipe_callTool_def push_callTool_def image_request_calls)

section \<open>Properties of the start of the programs\<close>

text \<open>
  Without a credential (\<^verbatim>\<open>DIFY_API_KEY\<close> unset or empty) each adapter ends with an
  uncaught Error while its module loads, before a server exists. The command-line tool
  sends no request: without a query it prints the usage line and exits with code 1, and
  with a query \<^verbatim>\<open>sendChatMessage\<close> throws the same Error.
\<close>

lemma missing_key_outcomes:
  assumes "missing api_key"
  shows "pipe_main api_key = Uncaught key_required \<and>
         push_main api_key = Uncaught key_required \<and>
         cli_main R W api_key args =
           (if missing (argv args 0)
            then (\<lparr>cli_calls = [], cli_out = \<lparr>stdout = [], stderr = [LogUsage]\<rparr>\<rparr>, Exit 1)
            else (\<lparr>cli_calls = [], cli_out = \<lparr>stdout = [], stderr = [LogRejection key_required]\<rparr>\<rparr>,
                  Finished))"
  using assms
  by (auto simp: pipe_main_def push_main_def adapter_main_def cli_main_def sendChatMessage_def
        missing_def split: option.splits)

text \<open>
  Claim C6. With the credential absent, every entry point is to end with a fatal error
  at once and process nothing. Both adapters do. The command-line tool, called with a
  query, sends no request and throws the Error the adapters end on, but its caller
  catches it (\<^verbatim>\<open>.catch(console.error)\<close>): the Error is logged and the script runs to its
  end, which is not a fatal end.
\<close>

theorem cli_missing_key_is_caught:
  "pipe_main None = Uncaught key_required \<and>
   push_main None = Uncaught key_required \<and>
   sendChatMessage node sample_world None ''hello'' None =
     (\<lparr>cli_calls = [], cli_out = \<lparr>stdout = [], stderr = []\<rparr>\<rparr>, Rejected key_required) \<and>
   cli_main node sample_world None [''hello''] =
     (\<lparr>cli_calls = [], cli_out = \<lparr>stdout = [], stderr = [LogRejection key_required]\<rparr>\<rparr>, Finished) \<and>
   fatal (pipe_main None) \<and>
   fatal (push_main None) \<and>
   \<not> fatal (snd (cli_main node sample_world None [''hello'']))"
  by (simp add: pipe_main_def push_main_def adapter_main_def cli_main_def argv_def
        sendChatMessage_def missing_def fatal_def)

section \<open>Properties of the push adapter's channel\<close>

lemma post_no_channel: "currentTransport s = None \<Longrightarrow> post_messages H s m = no_channel_reply"
  by (simp add: post_messages_def no_channel_reply_def)

lemma push_run_append: "push_run s (xs @ ys) = push_run (push_run s xs) ys"
  by (simp add: push_run_def)

lemma push_run_Cons: "push_run s (e # evs) = push_run (push_step s e) evs"
  by (simp add: push_run_def)

lemma push_run_Nil: "push_run s [] = s"
  by (simp add: push_run_def)

lemma stays_without_channel:
  "currentTransport s = None \<Longrightarrow> \<forall>e \<in> set evs. \<not> is_open e \<Longrightarrow>
   currentTransport (push_run s evs) = None"
proof (induction evs arbitrary: s)
  case Nil
  then show ?case by (simp add: push_run_Nil)
next
  case (Cons e evs)
  have "currentTransport (push_step s e) = None"
    using Cons.prems by (cases e) (simp_all add: is_open_def on_close_def)
  then show ?case
    using Cons by (simp add: push_run_Cons)
qed

lemma stays_live:
  "c \<in> live s \<Longrightarrow> CloseConn c \<notin> set evs \<Longrightarrow> c \<in> live (push_run s evs)"
proof (induction evs arbitrary: s)
  case Nil
  then show ?case by (simp add: push_run_Nil)
next
  case (Cons e evs)
  have "c \<in> live (push_step s e)"
    using Cons.prems by (cases e) (auto simp: get_sse_def on_close_def)
  then show ?case
    using Cons by (simp add: push_run_Cons)
qed

lemma close_clears: "c \<in> live s \<Longrightarrow> currentTransport (on_close c s) = None"
  by (simp add: on_close_def)

text \<open>
  Claim C8. \<^verbatim>\<open>POST /messages\<close> without an active channel answers 400 with an error body
  and forwards the message to no transport. There is no active channel when no
  \<^verbatim>\<open>GET /sse\<close> has been handled since the start, and when a connection that was opened has
  closed and none has been opened since.
\<close>

theorem post_without_channel:
  "(currentTransport s = None \<longrightarrow> post_messages H s m = no_channel_reply) \<and>
   ((\<forall>e \<in> set evs. \<not> is_open e) \<longrightarrow>
      post_messages H (push_run push_init evs) m = no_channel_reply) \<and>
   (CloseConn c \<notin> set mid \<and> (\<forall>e \<in> set evs. \<not> is_open e) \<longrightarrow>
      post_messages H (push_run push_init (pre @ OpenSse c # mid @ CloseConn c # evs)) m =
        no_channel_reply)"
proof (intro conjI impI)
  assume "currentTransport s = None"
  then show "post_messages H s m = no_channel_reply" by (rule post_no_channel)
next
  assume "\<forall>e \<in> set evs. \<not> is_open e"
  then have "currentTransport (push_run push_init evs) = None"
    by (intro stays_without_channel) (simp_all add: push_init_def)
  then show "post_messages H (push_run push_init evs) m = no_channel_reply"
    by (rule post_no_channel)
next
  assume a: "CloseConn c \<notin> set mid \<and> (\<forall>e \<in> set evs. \<not> is_open e)"
  let ?s1 = "push_run (get_sse c (push_run push_init pre)) mid"
  have "c \<in> live (get_sse c (push_run push_init pre))"
    by (simp add: get_sse_def)
  then have "c \<in> live ?s1"
    using a by (intro stays_live) simp_all
  then have "currentTransport (on_close c ?s1) = None"
    by (rule close_clears)
  then have "currentTransport (push_run (on_close c ?s1) evs) = None"
    using a by (intro stays_without_channel) simp_all
  then have "currentTransport (push_run push_init (pre @ OpenSse c # mid @ CloseConn c # evs)) = None"
    by (simp add: push_run_append push_run_Cons)
  then show "post_messages H (push_run push_init (pre @ OpenSse c # mid @ CloseConn c # evs)) m =
        no_channel_reply"
    by (rule post_no_channel)
qed

theorem post_without_channel_witness:
  "post_messages (\<lambda>t m. Inr \<lparr>status = 202, body = []\<rparr>) push_init ''ping'' = no_channel_reply \<and>
   post_messages (\<lambda>t m. Inr \<lparr>status = 202, body = []\<rparr>)
     (push_run push_init [PostMessage ''early'', CloseConn 4]) ''ping'' = no_channel_reply \<and>
   post_messages (\<lambda>t m. Inr \<lparr>status = 202, body = []\<rparr>)
     (push_run push_init ([] @ OpenSse 1 # [PostMessage ''hello''] @ CloseConn 1 # [PostMessage ''late'']))
     ''ping'' = no_channel_reply"
proof -
  have 1: "currentTransport push_init = None" by (simp add: push_init_def)
  have 2: "\<forall>e \<in> set [PostMessage ''early'', CloseConn 4]. \<not> is_open e" by (simp add: is_open_def)
  have 3: "CloseConn 1 \<notin> set [PostMessage ''hello''] \<and> (\<forall>e \<in> set [PostMessage ''late'']. \<not> is_open e)"
    by (simp add: is_open_def)
  show ?thesis
    using 1 2 3
      post_without_channel [of push_init "\<lambda>t m. Inr \<lparr>status = 202, body = []\<rparr>" "''ping''"
        "[PostMessage ''early'', CloseConn 4]" 1 "[PostMessage ''hello'']" "[]"]
      post_without_channel [of push_init "\<lambda>t m. Inr \<lparr>status = 202, body = []\<rparr>" "''ping''"
        "[PostMessage ''late'']" 1 "[PostMessage ''hello'']" "[]"]
    by blast
qed

text \<open>
  Claim C9. The close handler of a connection clears \<open>currentTransport\<close> whichever
  transport it holds. After connection \<open>a\<close> is opened, connection \<open>b\<close> is opened (and is
  the active channel), and \<open>a\<close> closes, there is no active channel although \<open>b\<close> is still
  open, and a posted message is rejected with 400.
\<close>

theorem close_of_replaced_connection:
  assumes "a \<noteq> b"
  shows "currentTransport (push_run s [OpenSse a, OpenSse b :: 'm event]) = Some b \<and>
         currentTransport (push_run s [OpenSse a, OpenSse b, CloseConn a :: 'm event]) = None \<and>
         b \<in> live (push_run s [OpenSse a, OpenSse b, CloseConn a :: 'm event]) \<and>
         post_messages H (push_run s [OpenSse a, OpenSse b, CloseConn a :: 'm event]) (m :: 'm) =
           no_channel_reply \<and>
         (\<forall>c t. c \<in> live t \<longrightarrow> currentTransport (on_close c t) = None)"
  using assms
  by (simp add: push_run_def get_sse_def on_close_def post_messages_def no_channel_reply_def)

theorem close_of_replaced_connection_witness:
  "currentTransport (push_run push_init [OpenSse 1, OpenSse 2 :: string event]) = Some 2 \<and>
   currentTransport (push_run push_init [OpenSse 1, OpenSse 2, CloseConn 1 :: string event]) = None \<and>
   2 \<in> live (push_run push_init [OpenSse 1, OpenSse 2, CloseConn 1 :: string event]) \<and>
   post_messages (\<lambda>t m. Inr \<lparr>status = 202, body = []\<rparr>)
     (push_run push_init [OpenSse 1, OpenSse 2, CloseConn 1 :: string event]) ''ping'' =
     no_channel_reply"
proof -
  have ne: "(1::nat) \<noteq> 2" by simp
  show ?thesis
    using close_of_replaced_connection [OF ne, of push_init "\<lambda>t m. Inr \<lparr>status = 202, body = []\<rparr>" "''ping''"]
    by simp
qed

end
